theory Spec2Isabelle
  imports Main "HOL-Library.Word"
begin

section \<open>Outcomes of a call\<close>

text \<open>
  A Go call either returns its results or panics. A panic is the left injection of a sum,
  a normal return the right one; \<open>OutOfMemory\<close> stands there for the end of the process
  when the memory asked for is not to be had (a fatal error of the runtime, not a panic
  that could be recovered). A Go \<open>error\<close> result is an \<open>error option\<close>
  (\<open>None\<close> is \<open>nil\<close>). A method with a pointer receiver that mutates its receiver
  returns the receiver's new state together with its Go results, so that what an operation
  leaves behind when it reports an error is visible in the model.
\<close>

datatype panic =
    IndexOutOfRange
  | MakeSliceLenOutOfRange
  | SliceBoundsOutOfRange
  | IntegerDivideByZero
  | OutOfMemory

datatype error =
    ErrInvalidBoardSize
  | ErrInvalidWinLength
  | ErrInvalidPosition
  | ErrCellOccupied
  | ErrGameNotInProgress
  | ErrNotYourTurn
  | ErrPlayerNotInGame
  | ErrGameAlreadyStarted
  | ErrCannotJoinOwnGame

text \<open>
  Go's \<open>int\<close> is taken to be 64 bits wide (as on amd64 and arm64). Values are HOL
  integers; \<open>wrap64\<close> is the two's complement wrap-around of an arithmetic result, written
  out where a result can leave the 64-bit range for operands inside it.
\<close>

definition wrap64 :: "int \<Rightarrow> int" where
  "wrap64 x = (x + 2 ^ 63) mod 2 ^ 64 - 2 ^ 63"

definition int64 :: "int \<Rightarrow> bool" where
  "int64 x \<longleftrightarrow> - (2 ^ 63) \<le> x \<and> x < 2 ^ 63"

definition add64 :: "int \<Rightarrow> int \<Rightarrow> int" where
  "add64 x y = wrap64 (x + y)"

definition mul64 :: "int \<Rightarrow> int \<Rightarrow> int" where
  "mul64 x y = wrap64 (x * y)"

definition neg64 :: "int \<Rightarrow> int" where
  "neg64 x = wrap64 (- x)"

text \<open>
  \<open>make([]T, n)\<close> for an element type of \<open>elemSize\<close> bytes. The runtime panics with
  ``makeslice: len out of range'' for a negative length and for a slice of more than
  \<open>maxAlloc\<close> bytes, which is \<open>2^48\<close> on a 64-bit Linux. Below that limit the memory has
  still to be found: \<open>avail\<close>, an input of every function that allocates, is the number of
  elements for which the machine has memory at the time of the call, and a longer slice
  ends the process. Otherwise the slice holds \<open>n\<close> zero values.
\<close>

definition maxAlloc :: int where
  "maxAlloc = 2 ^ 48"

definition makeSlice :: "int \<Rightarrow> int \<Rightarrow> int \<Rightarrow> 'a \<Rightarrow> panic + 'a list" where
  "makeSlice avail elemSize n zero =
     (if n < 0 \<or> elemSize * n > maxAlloc then Inl MakeSliceLenOutOfRange
      else if 0 < n \<and> avail < n then Inl OutOfMemory
      else Inr (replicate (nat n) zero))"

text \<open>
  A loop whose exit condition may never hold is a partial function into \<open>option\<close>:
  \<open>None\<close> is a call that never returns. \<open>run_bind\<close> sequences two such calls, a
  panic or a divergence of the first ending the whole.
\<close>

type_synonym 'a run = "(panic + 'a) option"

definition run_bind :: "'a run \<Rightarrow> ('a \<Rightarrow> 'b run) \<Rightarrow> 'b run" where
  "run_bind m f = (case m of None \<Rightarrow> None | Some (Inl p) \<Rightarrow> Some (Inl p) | Some (Inr x) \<Rightarrow> f x)"

section \<open>board.go\<close>

datatype Mark = MarkEmpty | MarkX | MarkO

fun Opponent :: "Mark \<Rightarrow> Mark" where
  "Opponent MarkX = MarkO"
| "Opponent MarkO = MarkX"
| "Opponent MarkEmpty = MarkEmpty"

datatype Status = StatusPending | StatusInProgress | StatusXWon | StatusOWon | StatusDraw

definition IsFinished :: "Status \<Rightarrow> bool" where
  "IsFinished s \<longleftrightarrow> s = StatusXWon \<or> s = StatusOWon \<or> s = StatusDraw"

record Board =
  Size :: int
  WinLength :: int
  Cells :: "Mark list"

text \<open>
  A \<open>Mark\<close> is an \<open>int\<close> of 8 bytes and its zero value is \<open>MarkEmpty\<close>. The loop
  \<open>for i := range cells { cells[i] = MarkEmpty }\<close> follows the \<open>make\<close>.
\<close>

function clear_from :: "nat \<Rightarrow> Mark list \<Rightarrow> Mark list" where
  "clear_from i cells = (if i < length cells then clear_from (Suc i) (cells[i := MarkEmpty]) else cells)"
  by pat_completeness auto
termination
  by (relation "measure (\<lambda>(i, cells). length cells - i)") auto

declare clear_from.simps [simp del]

definition NewBoard :: "int \<Rightarrow> int \<Rightarrow> int \<Rightarrow> panic + (error + Board)" where
  "NewBoard avail bsize winLength =
     (if bsize < 3 then Inr (Inl ErrInvalidBoardSize)
      else if winLength < 3 \<or> winLength > bsize then Inr (Inl ErrInvalidWinLength)
      else (case makeSlice avail 8 (mul64 bsize bsize) MarkEmpty of
              Inl p \<Rightarrow> Inl p
            | Inr cells \<Rightarrow>
                Inr (Inr \<lparr>Size = bsize, WinLength = winLength, Cells = clear_from 0 cells\<rparr>)))"

definition isValidPosition :: "Board \<Rightarrow> int \<Rightarrow> int \<Rightarrow> bool" where
  "isValidPosition b row col \<longleftrightarrow> row \<ge> 0 \<and> row < Size b \<and> col \<ge> 0 \<and> col < Size b"

text \<open>The index expression \<open>row*b.Size + col\<close>, in 64-bit arithmetic.\<close>

definition cellIndex :: "Board \<Rightarrow> int \<Rightarrow> int \<Rightarrow> int" where
  "cellIndex b row col = add64 (mul64 row (Size b)) col"

text \<open>Indexing a slice outside \<open>0 \<le> i < len\<close> panics.\<close>

definition inRange :: "'a list \<Rightarrow> int \<Rightarrow> bool" where
  "inRange xs i \<longleftrightarrow> 0 \<le> i \<and> i < int (length xs)"

definition Get :: "Board \<Rightarrow> int \<Rightarrow> int \<Rightarrow> panic + (Mark \<times> error option)" where
  "Get b row col =
     (if \<not> isValidPosition b row col then Inr (MarkEmpty, Some ErrInvalidPosition)
      else if inRange (Cells b) (cellIndex b row col)
           then Inr (Cells b ! nat (cellIndex b row col), None)
           else Inl IndexOutOfRange)"

definition Set :: "Board \<Rightarrow> int \<Rightarrow> int \<Rightarrow> Mark \<Rightarrow> panic + (Board \<times> error option)" where
  "Set b row col mark =
     (if \<not> isValidPosition b row col then Inr (b, Some ErrInvalidPosition)
      else let idx = cellIndex b row col in
        if \<not> inRange (Cells b) idx then Inl IndexOutOfRange
        else if Cells b ! nat idx \<noteq> MarkEmpty then Inr (b, Some ErrCellOccupied)
        else Inr (b\<lparr>Cells := (Cells b)[nat idx := mark]\<rparr>, None))"

fun IsFull_loop :: "Mark list \<Rightarrow> bool" where
  "IsFull_loop [] = True"
| "IsFull_loop (cell # cells) = (if cell = MarkEmpty then False else IsFull_loop cells)"

definition IsFull :: "Board \<Rightarrow> bool" where
  "IsFull b = IsFull_loop (Cells b)"

text \<open>
  The loop of \<open>countInDirection\<close>: it runs while \<open>(r, c)\<close> is on the board and holds
  \<open>mark\<close>. With \<open>dRow = dCol = 0\<close> on a matching cell it never ends.
\<close>

partial_function (option) countLoop ::
  "Board \<Rightarrow> int \<Rightarrow> int \<Rightarrow> Mark \<Rightarrow> int \<Rightarrow> int \<Rightarrow> int \<Rightarrow> (panic + int) option" where
  "countLoop b dRow dCol mark r c count =
     (if isValidPosition b r c then
        (case Get b r c of
           Inl p \<Rightarrow> Some (Inl p)
         | Inr (m, _) \<Rightarrow>
             if m = mark then countLoop b dRow dCol mark (add64 r dRow) (add64 c dCol) (add64 count 1)
             else Some (Inr count))
      else Some (Inr count))"

declare countLoop.simps [code]

definition countInDirection :: "Board \<Rightarrow> int \<Rightarrow> int \<Rightarrow> int \<Rightarrow> int \<Rightarrow> Mark \<Rightarrow> int run" where
  "countInDirection b row col dRow dCol mark =
     countLoop b dRow dCol mark (add64 row dRow) (add64 col dCol) 0"

definition directions :: "(int \<times> int) list" where
  "directions = [(0, 1), (1, 0), (1, 1), (1, - 1)]"

text \<open>The loop over \<open>directions\<close> in \<open>CheckWinner\<close>, with its early return.\<close>

fun checkDirections :: "Board \<Rightarrow> int \<Rightarrow> int \<Rightarrow> Mark \<Rightarrow> (int \<times> int) list \<Rightarrow> Mark run" where
  "checkDirections b row col mark [] = Some (Inr MarkEmpty)"
| "checkDirections b row col mark (dir # dirs) =
     run_bind (countInDirection b row col (fst dir) (snd dir) mark) (\<lambda>n1.
     run_bind (countInDirection b row col (neg64 (fst dir)) (neg64 (snd dir)) mark) (\<lambda>n2.
       if add64 (add64 1 n1) n2 \<ge> WinLength b then Some (Inr mark)
       else checkDirections b row col mark dirs))"

definition CheckWinner :: "Board \<Rightarrow> int \<Rightarrow> int \<Rightarrow> Mark run" where
  "CheckWinner b row col =
     (case Get b row col of
        Inl p \<Rightarrow> Some (Inl p)
      | Inr (mark, err) \<Rightarrow>
          if err \<noteq> None \<or> mark = MarkEmpty then Some (Inr MarkEmpty)
          else checkDirections b row col mark directions)"

definition Clone :: "Board \<Rightarrow> Board" where
  "Clone b = \<lparr>Size = Size b, WinLength = WinLength b, Cells = Cells b\<rparr>"

section \<open>game.go\<close>

text \<open>
  Times are instants on an integer clock. \<open>time.Now()\<close> is an input of the operations
  that read it. The mutex serialises the calls on one game: a call is modelled as it runs
  while holding the lock.
\<close>

type_synonym time = int

record Game =
  ID :: string
  PlayerX :: string
  PlayerO :: string
  Board :: Board
  Turn :: Mark
  Status :: Status
  CreatedAt :: time
  UpdatedAt :: time

definition NewGame ::
  "int \<Rightarrow> string \<Rightarrow> string \<Rightarrow> int \<Rightarrow> int \<Rightarrow> time \<Rightarrow> panic + (error + Game)" where
  "NewGame avail gid creatorID boardSize winLength now =
     (case NewBoard avail boardSize winLength of
        Inl p \<Rightarrow> Inl p
      | Inr (Inl err) \<Rightarrow> Inr (Inl err)
      | Inr (Inr board) \<Rightarrow>
          Inr (Inr \<lparr>ID = gid, PlayerX = creatorID, PlayerO = [], Board = board, Turn = MarkX,
                    Status = StatusPending, CreatedAt = now, UpdatedAt = now\<rparr>))"

definition Join :: "Game \<Rightarrow> string \<Rightarrow> time \<Rightarrow> Game \<times> error option" where
  "Join g playerID now =
     (if Status g \<noteq> StatusPending then (g, Some ErrGameAlreadyStarted)
      else if PlayerX g = playerID then (g, Some ErrCannotJoinOwnGame)
      else (g\<lparr>PlayerO := playerID, Status := StatusInProgress, UpdatedAt := now\<rparr>, None))"

definition getPlayerMark :: "Game \<Rightarrow> string \<Rightarrow> Mark" where
  "getPlayerMark g playerID =
     (if playerID = PlayerX g then MarkX
      else if playerID = PlayerO g then MarkO
      else MarkEmpty)"

definition MakeMove :: "Game \<Rightarrow> string \<Rightarrow> int \<Rightarrow> int \<Rightarrow> time \<Rightarrow> (Game \<times> error option) run" where
  "MakeMove g playerID row col now =
     (if Status g \<noteq> StatusInProgress then Some (Inr (g, Some ErrGameNotInProgress))
      else let playerMark = getPlayerMark g playerID in
        if playerMark = MarkEmpty then Some (Inr (g, Some ErrPlayerNotInGame))
        else if Turn g \<noteq> playerMark then Some (Inr (g, Some ErrNotYourTurn))
        else (case Set (Board g) row col playerMark of
                Inl p \<Rightarrow> Some (Inl p)
              | Inr (b', Some err) \<Rightarrow> Some (Inr (g\<lparr>Board := b'\<rparr>, Some err))
              | Inr (b', None) \<Rightarrow>
                  let g1 = g\<lparr>Board := b', UpdatedAt := now\<rparr> in
                  run_bind (CheckWinner b' row col) (\<lambda>winner.
                    if winner \<noteq> MarkEmpty then
                      (if winner = MarkX then Some (Inr (g1\<lparr>Status := StatusXWon\<rparr>, None))
                       else Some (Inr (g1\<lparr>Status := StatusOWon\<rparr>, None)))
                    else if IsFull b' then Some (Inr (g1\<lparr>Status := StatusDraw\<rparr>, None))
                    else Some (Inr (g1\<lparr>Turn := Opponent (Turn g1)\<rparr>, None)))))"

definition GetStatus :: "Game \<Rightarrow> Status" where
  "GetStatus g = Status g"

record GameSnapshot =
  snapID :: string
  snapPlayerX :: string
  snapPlayerO :: string
  snapBoard :: Board
  snapTurn :: Mark
  snapStatus :: Status
  snapCreatedAt :: time
  snapUpdatedAt :: time

definition GetSnapshot :: "Game \<Rightarrow> GameSnapshot" where
  "GetSnapshot g =
     \<lparr>snapID = ID g, snapPlayerX = PlayerX g, snapPlayerO = PlayerO g,
      snapBoard = Clone (Board g), snapTurn = Turn g, snapStatus = Status g,
      snapCreatedAt = CreatedAt g, snapUpdatedAt = UpdatedAt g\<rparr>"

section \<open>game_store.go\<close>

text \<open>
  A shard's map is the list of its entries in the order in which the \<open>range\<close> loop of
  the scan visits them; Go leaves that order open. Calls are modelled one at a time, each
  under the locks it takes.
\<close>

record gameShard =
  games :: "(string \<times> Game) list"

record GameStore =
  shards :: "gameShard list"
  numShards :: int

text \<open>The inner loop of \<open>ListPending\<close>, over the games of one shard.\<close>

fun collectGames :: "(string \<times> Game) list \<Rightarrow> GameSnapshot list \<Rightarrow> GameSnapshot list" where
  "collectGames [] pending = pending"
| "collectGames (kg # rest) pending =
     collectGames rest
       (if GetStatus (snd kg) = StatusPending then pending @ [GetSnapshot (snd kg)] else pending)"

text \<open>The outer loop, over the shards.\<close>

fun collectShards :: "gameShard list \<Rightarrow> GameSnapshot list \<Rightarrow> GameSnapshot list" where
  "collectShards [] pending = pending"
| "collectShards (shard # rest) pending = collectShards rest (collectGames (games shard) pending)"

text \<open>
  The slice expressions \<open>s[lo:]\<close> and \<open>s[:hi]\<close>. They panic for a bound outside the
  slice. (For \<open>s[:hi]\<close> Go admits \<open>hi\<close> up to the capacity; the caller below only
  reaches it with \<open>hi\<close> below the length.)
\<close>

definition sliceFrom :: "'a list \<Rightarrow> int \<Rightarrow> panic + 'a list" where
  "sliceFrom xs lo =
     (if lo < 0 \<or> lo > int (length xs) then Inl SliceBoundsOutOfRange else Inr (drop (nat lo) xs))"

definition sliceTo :: "'a list \<Rightarrow> int \<Rightarrow> panic + 'a list" where
  "sliceTo xs hi =
     (if hi < 0 \<or> hi > int (length xs) then Inl SliceBoundsOutOfRange else Inr (take (nat hi) xs))"

definition ListPending :: "GameStore \<Rightarrow> int \<Rightarrow> int \<Rightarrow> panic + (GameSnapshot list \<times> int)" where
  "ListPending s limit offset =
     (let pending = collectShards (shards s) [];
          totalCount = int (length pending)
      in if offset \<ge> int (length pending) then Inr ([], totalCount)
         else (case sliceFrom pending offset of
                 Inl p \<Rightarrow> Inl p
               | Inr pending1 \<Rightarrow>
                   if limit > 0 \<and> int (length pending1) > limit
                   then (case sliceTo pending1 limit of
                           Inl p \<Rightarrow> Inl p
                         | Inr pending2 \<Rightarrow> Inr (pending2, totalCount))
                   else Inr (pending1, totalCount)))"

section \<open>stats_store.go\<close>

text \<open>The counters are \<open>int32\<close>: 32-bit words, on which \<open>+\<close> wraps as \<open>atomic.AddInt32\<close> does.\<close>

record UserStats =
  UserID :: string
  Wins :: "32 word"
  Losses :: "32 word"
  Draws :: "32 word"

definition TotalGames :: "UserStats \<Rightarrow> 32 word" where
  "TotalGames st = Wins st + Losses st + Draws st"

record statsShard =
  stats :: "string \<rightharpoonup> UserStats"

record StatsStore =
  statsShards :: "statsShard list"
  statsNumShards :: int

text \<open>
  \<open>getShard\<close> folds the runes of the id into a \<open>uint32\<close>. The decoding of a string
  into the runes that \<open>range\<close> yields belongs to the language; it is the parameter
  \<open>runes\<close> of the functions below. The shard is returned as its index in \<open>shards\<close>.
\<close>

fun hashRunes :: "32 word list \<Rightarrow> 32 word \<Rightarrow> 32 word" where
  "hashRunes [] hash = hash"
| "hashRunes (c # cs) hash = hashRunes cs (hash * 31 + c)"

definition getShard :: "(string \<Rightarrow> 32 word list) \<Rightarrow> StatsStore \<Rightarrow> string \<Rightarrow> panic + nat" where
  "getShard runes s userID =
     (let hash = hashRunes (runes userID) 0;
          n = (word_of_int (statsNumShards s) :: 32 word)
      in if n = 0 then Inl IntegerDivideByZero
         else if unat (hash mod n) < length (statsShards s) then Inr (unat (hash mod n))
         else Inl IndexOutOfRange)"

text \<open>
  \<open>NewStatsStore\<close> makes a slice of \<open>numShards\<close> pointers (8 bytes each) and sets each
  entry to a new shard with an empty map; the slice is given here as the loop leaves it.
\<close>

definition NewStatsStore :: "int \<Rightarrow> int \<Rightarrow> panic + StatsStore" where
  "NewStatsStore avail n =
     (let numShards = (if n < 1 then 64 else n)
      in case makeSlice avail 8 numShards \<lparr>stats = Map.empty\<rparr> of
           Inl p \<Rightarrow> Inl p
         | Inr newShards \<Rightarrow> Inr \<lparr>statsShards = newShards, statsNumShards = numShards\<rparr>)"

text \<open>The write \<open>shard.stats[userID] = st\<close> on shard \<open>i\<close>.\<close>

definition putStats :: "StatsStore \<Rightarrow> nat \<Rightarrow> string \<Rightarrow> UserStats \<Rightarrow> StatsStore" where
  "putStats s i userID st =
     s\<lparr>statsShards := (statsShards s)[i := (statsShards s ! i)\<lparr>stats := (stats (statsShards s ! i))(userID \<mapsto> st)\<rparr>]\<rparr>"







section \<open>Notions used in the statements\<close>

text \<open>
  A board is well formed when its slice of cells has \<open>Size * Size\<close> entries, a number
  that fits Go's \<open>int\<close>.
\<close>

definition wellFormed :: "Board \<Rightarrow> bool" where
  "wellFormed b \<longleftrightarrow> 0 \<le> Size b \<and> int (length (Cells b)) = Size b * Size b \<and> Size b * Size b < 2 ^ 63"

text \<open>The cell \<open>(row, col)\<close> is on the board and holds \<open>m\<close>.\<close>

definition holds :: "Board \<Rightarrow> int \<Rightarrow> int \<Rightarrow> Mark \<Rightarrow> bool" where
  "holds b row col m \<longleftrightarrow> Get b row col = Inr (m, None)"



text \<open>A sequence of \<open>Set\<close> calls on one board, whatever each of them reports.\<close>

fun setMany :: "Board \<Rightarrow> (int \<times> int \<times> Mark) list \<Rightarrow> panic + Board" where
  "setMany b [] = Inr b"
| "setMany b ((r, c, mk) # ops) = (case Set b r c mk of Inl p \<Rightarrow> Inl p | Inr (b', _) \<Rightarrow> setMany b' ops)"

text \<open>
  The calls that change a game, and a sequence of them on one game; the sequence yields the
  last state and what each call reported.
\<close>

datatype GameOp = OpJoin string time | OpMakeMove string int int time

fun applyOp :: "Game \<Rightarrow> GameOp \<Rightarrow> (Game \<times> error option) run" where
  "applyOp g (OpJoin playerID now) = Some (Inr (Join g playerID now))"
| "applyOp g (OpMakeMove playerID row col now) = MakeMove g playerID row col now"

fun runOps :: "Game \<Rightarrow> GameOp list \<Rightarrow> (Game \<times> error option list) run" where
  "runOps g [] = Some (Inr (g, []))"
| "runOps g (op # ops) =
     run_bind (applyOp g op) (\<lambda>(g1, e).
     run_bind (runOps g1 ops) (\<lambda>(g', es). Some (Inr (g', e # es))))"

fun statusRank :: "Status \<Rightarrow> nat" where
  "statusRank StatusPending = 0"
| "statusRank StatusInProgress = 1"
| "statusRank StatusXWon = 2"
| "statusRank StatusOWon = 2"
| "statusRank StatusDraw = 2"

fun isJoin :: "GameOp \<Rightarrow> bool" where
  "isJoin (OpJoin _ _) = True"
| "isJoin (OpMakeMove _ _ _ _) = False"

definition successfulJoins :: "GameOp list \<Rightarrow> error option list \<Rightarrow> nat" where
  "successfulJoins ops es = length (filter (\<lambda>(op, e). isJoin op \<and> e = None) (zip ops es))"

text \<open>
  What one call may do to the status: leave it (a successful \<open>Join\<close> never does), take it
  from Pending to InProgress (only a successful \<open>Join\<close>), or take it from InProgress to a
  final status (only a successful \<open>MakeMove\<close>).
\<close>

definition statusStep :: "Status \<Rightarrow> GameOp \<Rightarrow> error option \<Rightarrow> Status \<Rightarrow> bool" where
  "statusStep s op e s' \<longleftrightarrow>
     (s' = s \<and> \<not> (isJoin op \<and> e = None))
     \<or> (s = StatusPending \<and> s' = StatusInProgress \<and> isJoin op \<and> e = None)
     \<or> (s = StatusInProgress \<and> IsFinished s' \<and> \<not> isJoin op \<and> e = None)"

text \<open>
  The games of a store, shard after shard, and the snapshots of those among them that are
  Pending.
\<close>

definition allGames :: "GameStore \<Rightarrow> Game list" where
  "allGames s = concat (map (\<lambda>shard. map snd (games shard)) (shards s))"

definition pendingSnapshots :: "GameStore \<Rightarrow> GameSnapshot list" where
  "pendingSnapshots s = map GetSnapshot (filter (\<lambda>g. Status g = StatusPending) (allGames s))"

text \<open>
  A page of a list: the first \<open>offset\<close> entries are dropped, and of the rest at most
  \<open>limit\<close> are kept when \<open>limit\<close> is positive, all of them otherwise.
\<close>

definition page :: "int \<Rightarrow> int \<Rightarrow> 'a list \<Rightarrow> 'a list" where
  "page limit offset xs =
     (if limit > 0 then take (nat limit) (drop (nat offset) xs) else drop (nat offset) xs)"

text \<open>
  A stats store is in order when \<open>numShards\<close> is the number of its shards and is not 0 as
  a \<open>uint32\<close>, as in every store that \<open>NewStatsStore\<close> builds with fewer than \<open>2^32\<close>
  shards.
\<close>

definition storeOK :: "StatsStore \<Rightarrow> bool" where
  "storeOK s \<longleftrightarrow> statsNumShards s = int (length (statsShards s))
     \<and> (word_of_int (statsNumShards s) :: 32 word) \<noteq> 0"






text \<open>Examples: a 3x3 board on which X completes the top row at \<open>(0, 2)\<close>, and a game on it.\<close>

definition exampleBoard :: Board where
  "exampleBoard =
     \<lparr>Size = 3, WinLength = 3,
      Cells = [MarkX, MarkX, MarkEmpty,
               MarkO, MarkO, MarkEmpty,
               MarkEmpty, MarkEmpty, MarkEmpty]\<rparr>"


definition emptyBoard :: Board where
  "emptyBoard = \<lparr>Size = 3, WinLength = 3, Cells = replicate 9 MarkEmpty\<rparr>"

definition pendingGame :: Game where
  "pendingGame =
     \<lparr>ID = ''g0'', PlayerX = ''alice'', PlayerO = [], Board = emptyBoard, Turn = MarkX,
      Status = StatusPending, CreatedAt = 0, UpdatedAt = 0\<rparr>"

definition exampleGame :: Game where
  "exampleGame =
     \<lparr>ID = ''g1'', PlayerX = ''alice'', PlayerO = ''bob'', Board = exampleBoard, Turn = MarkX,
      Status = StatusInProgress, CreatedAt = 0, UpdatedAt = 4\<rparr>"

text \<open>A store of three shards with four Pending games and one game InProgress.\<close>

definition exampleStore :: GameStore where
  "exampleStore =
     \<lparr>shards =
        [\<lparr>games = [(''a'', pendingGame\<lparr>ID := ''a''\<rparr>), (''b'', exampleGame\<lparr>ID := ''b''\<rparr>),
                   (''c'', pendingGame\<lparr>ID := ''c''\<rparr>)]\<rparr>,
         \<lparr>games = []\<rparr>,
         \<lparr>games = [(''d'', pendingGame\<lparr>ID := ''d''\<rparr>), (''e'', pendingGame\<lparr>ID := ''e''\<rparr>)]\<rparr>],
      numShards = 3\<rparr>"

section \<open>Arithmetic and outcomes\<close>

lemma wrap64_id: "int64 x \<Longrightarrow> wrap64 x = x"
  by (simp add: wrap64_def int64_def)

lemma run_bind_Some:
  "run_bind m f = Some (Inr y) \<longleftrightarrow> (\<exists>x. m = Some (Inr x) \<and> f x = Some (Inr y))"
  by (auto simp add: run_bind_def split: option.splits sum.splits)

section \<open>Creating a board\<close>

lemma clear_from_replicate: "clear_from i (replicate n MarkEmpty) = replicate n MarkEmpty"
proof (induction "n - i" arbitrary: i)
  case 0
  then show ?case by (subst clear_from.simps) simp
next
  case (Suc k)
  then have "i < n" by simp
  moreover have "(replicate n MarkEmpty)[i := MarkEmpty] = replicate n MarkEmpty"
    using \<open>i < n\<close> by (simp add: list_update_same_conv)
  moreover have "clear_from (Suc i) (replicate n MarkEmpty) = replicate n MarkEmpty"
    using Suc by simp
  ultimately show ?case by (subst clear_from.simps) simp
qed

lemma mul64_square:
  assumes "8 * (bsize * bsize) \<le> maxAlloc"
  shows "mul64 bsize bsize = bsize * bsize"
proof -
  have "0 \<le> bsize * bsize" by simp
  then have "- (2 ^ 63) \<le> bsize * bsize" by (rule order_trans [rotated]) simp
  moreover have "bsize * bsize < 2 ^ 63" using assms by (simp add: maxAlloc_def)
  ultimately have "int64 (bsize * bsize)" by (simp add: int64_def)
  then show ?thesis by (simp add: mul64_def wrap64_id)
qed

lemma NewBoard_ok:
  assumes "3 \<le> winLength" "winLength \<le> bsize"
    and "8 * (bsize * bsize) \<le> maxAlloc" "bsize * bsize \<le> avail"
  shows "NewBoard avail bsize winLength =
    Inr (Inr \<lparr>Size = bsize, WinLength = winLength, Cells = replicate (nat (bsize * bsize)) MarkEmpty\<rparr>)"
  using assms mul64_square [OF assms(3)]
  by (simp add: NewBoard_def makeSlice_def clear_from_replicate)

lemma NewBoard_ok_only:
  assumes "NewBoard avail bsize winLength =
    Inr (Inr \<lparr>Size = bsize, WinLength = winLength, Cells = replicate (nat (bsize * bsize)) MarkEmpty\<rparr>)"
  shows "3 \<le> winLength \<and> winLength \<le> bsize
    \<and> 8 * (bsize * bsize) \<le> maxAlloc \<and> bsize * bsize \<le> avail"
proof -
  define m where "m = mul64 bsize bsize"
  from assms have w: "3 \<le> bsize" "3 \<le> winLength" "winLength \<le> bsize"
    by (auto simp add: NewBoard_def split: if_splits)
  from assms w have mk: "makeSlice avail 8 m MarkEmpty = Inr (replicate (nat m) MarkEmpty)"
    and c: "clear_from 0 (replicate (nat m) MarkEmpty) = replicate (nat (bsize * bsize)) MarkEmpty"
    by (auto simp add: NewBoard_def m_def makeSlice_def split: if_splits)
  from mk have m: "0 \<le> m" "8 * m \<le> maxAlloc" "\<not> (0 < m \<and> avail < m)"
    by (auto simp add: makeSlice_def split: if_splits)
  from c have "length (replicate (nat m) MarkEmpty) = length (replicate (nat (bsize * bsize)) MarkEmpty)"
    by (simp add: clear_from_replicate)
  then have "int (nat m) = int (nat (bsize * bsize))" by simp
  then have eq: "m = bsize * bsize" using m(1) by simp
  have "3 * 3 \<le> bsize * bsize" using w(1) by (intro mult_mono) simp_all
  then have "0 < m" using eq by simp
  with m eq w show ?thesis by simp
qed

lemma NewBoard_size_error:
  "NewBoard avail bsize winLength = Inr (Inl ErrInvalidBoardSize) \<longleftrightarrow> bsize < 3"
  by (simp add: NewBoard_def split: sum.splits)

lemma NewBoard_winLength_error:
  "NewBoard avail bsize winLength = Inr (Inl ErrInvalidWinLength)
     \<longleftrightarrow> 3 \<le> bsize \<and> (winLength < 3 \<or> winLength > bsize)"
  by (auto simp add: NewBoard_def split: sum.splits)

text \<open>
  Claim C7, as amended. \<open>NewBoard\<close> fails with \<open>ErrInvalidBoardSize\<close> exactly when the
  size is below 3, and otherwise with \<open>ErrInvalidWinLength\<close> exactly when the win length is
  below 3 or above the size. For every remaining pair it returns a board of that size and
  win length with \<open>size * size\<close> cells, all of them Empty, when the runtime can allocate
  the cells: when their \<open>8 * size * size\<close> bytes are within the limit \<open>maxAlloc\<close> of the
  allocator and the machine has memory for them; and for no other pair.
\<close>

theorem NewBoard_result:
  "(NewBoard avail bsize winLength = Inr (Inl ErrInvalidBoardSize) \<longleftrightarrow> bsize < 3)
 \<and> (NewBoard avail bsize winLength = Inr (Inl ErrInvalidWinLength)
      \<longleftrightarrow> 3 \<le> bsize \<and> (winLength < 3 \<or> winLength > bsize))
 \<and> (3 \<le> winLength \<and> winLength \<le> bsize
      \<and> 8 * (bsize * bsize) \<le> maxAlloc \<and> bsize * bsize \<le> avail \<longrightarrow>
      NewBoard avail bsize winLength =
        Inr (Inr \<lparr>Size = bsize, WinLength = winLength,
                  Cells = replicate (nat (bsize * bsize)) MarkEmpty\<rparr>))
 \<and> (NewBoard avail bsize winLength =
        Inr (Inr \<lparr>Size = bsize, WinLength = winLength,
                  Cells = replicate (nat (bsize * bsize)) MarkEmpty\<rparr>) \<longrightarrow>
      3 \<le> winLength \<and> winLength \<le> bsize
      \<and> 8 * (bsize * bsize) \<le> maxAlloc \<and> bsize * bsize \<le> avail)"
  using NewBoard_ok [of winLength bsize avail] NewBoard_ok_only [of avail bsize winLength]
    NewBoard_size_error [of avail bsize winLength] NewBoard_winLength_error [of avail bsize winLength]
  by blast

theorem NewBoard_result_witness:
  "(3::int) \<le> 4 \<and> (4::int) \<le> 5 \<and> 8 * ((5::int) * 5) \<le> maxAlloc \<and> (5::int) * 5 \<le> 1000
 \<and> NewBoard 1000 5 4 = Inr (Inr \<lparr>Size = 5, WinLength = 4, Cells = replicate 25 MarkEmpty\<rparr>)
 \<and> NewBoard 1000 2 2 = Inr (Inl ErrInvalidBoardSize)
 \<and> NewBoard 1000 3 4 = Inr (Inl ErrInvalidWinLength)
 \<and> NewBoard 1000 6000000 3 \<noteq>
      Inr (Inr \<lparr>Size = 6000000, WinLength = 3, Cells = replicate (nat (6000000 * 6000000)) MarkEmpty\<rparr>)"
  using NewBoard_result [of 1000 5 4] NewBoard_result [of 1000 2 2] NewBoard_result [of 1000 3 4]
    NewBoard_result [of 1000 6000000 3]
  by (simp add: maxAlloc_def)

text \<open>
  Claim C7 as stated fails for sizes whose cells the runtime does not allocate, whatever
  memory the machine has (here as much as the allocator admits). For size 3037000500 the
  product \<open>size * size\<close> wraps to a negative length and \<open>make\<close> panics; for size 4294967296
  it wraps to 0 and the board returned has no cells; for size 6000000 the cells exceed
  \<open>maxAlloc\<close> bytes and \<open>make\<close> panics.
\<close>

theorem NewBoard_overflow_counterexample:
  "NewBoard (2 ^ 45) 3037000500 3 = Inl MakeSliceLenOutOfRange
 \<and> NewBoard (2 ^ 45) 4294967296 3 = Inr (Inr \<lparr>Size = 4294967296, WinLength = 3, Cells = []\<rparr>)
 \<and> NewBoard (2 ^ 45) 6000000 3 = Inl MakeSliceLenOutOfRange"
  by (simp add: NewBoard_def mul64_def wrap64_def makeSlice_def maxAlloc_def clear_from.simps)

section \<open>Cells\<close>

lemma Set_error_unchanged: "Set b row col mark = Inr (b', Some e) \<Longrightarrow> b' = b"
  by (auto simp add: Set_def Let_def split: if_splits)

lemma Set_occupied:
  assumes "holds b row col m" "m \<noteq> MarkEmpty"
  shows "Set b row col mark = Inr (b, Some ErrCellOccupied)"
  using assms by (auto simp add: holds_def Set_def Get_def Let_def split: if_splits)

lemma Set_keeps_mark:
  assumes "holds b row col m" "m \<noteq> MarkEmpty" "Set b r c mk = Inr (b', e)"
  shows "holds b' row col m"
proof -
  from assms(1) have v: "isValidPosition b row col" "inRange (Cells b) (cellIndex b row col)"
    and m: "Cells b ! nat (cellIndex b row col) = m"
    by (auto simp add: holds_def Get_def split: if_splits)
  show ?thesis
  proof (cases e)
    case (Some err)
    with assms(3) have "b' = b" by (simp add: Set_error_unchanged)
    with assms(1) show ?thesis by simp
  next
    case None
    with assms(3) have b': "b' = b\<lparr>Cells := (Cells b)[nat (cellIndex b r c) := mk]\<rparr>"
      and e: "Cells b ! nat (cellIndex b r c) = MarkEmpty"
      by (auto simp add: Set_def Let_def split: if_splits)
    from e m assms(2) have "nat (cellIndex b r c) \<noteq> nat (cellIndex b row col)" by auto
    with v m show ?thesis
      by (simp add: b' holds_def Get_def isValidPosition_def cellIndex_def inRange_def)
  qed
qed

lemma setMany_keeps_mark:
  "holds b row col m \<Longrightarrow> m \<noteq> MarkEmpty \<Longrightarrow> setMany b ops = Inr b' \<Longrightarrow> holds b' row col m"
proof (induction ops arbitrary: b)
  case Nil
  then show ?case by simp
next
  case (Cons op ops)
  obtain r c mk where op: "op = (r, c, mk)" by (cases op)
  from Cons.prems(3) obtain b1 e where s: "Set b r c mk = Inr (b1, e)" and r: "setMany b1 ops = Inr b'"
    by (auto simp add: op split: sum.splits)
  from Set_keeps_mark [OF Cons.prems(1,2) s] have "holds b1 row col m" .
  from Cons.IH [OF this Cons.prems(2) r] show ?case .
qed

text \<open>
  Claim C6. Once a cell holds a mark other than Empty, \<open>Set\<close> on that cell fails with
  \<open>ErrCellOccupied\<close> and leaves the board as it was, whatever mark is passed (Empty
  included), and the cell holds the same mark after any \<open>Set\<close> call and after any sequence
  of \<open>Set\<close> calls on the board.
\<close>

theorem occupied_cell_is_final:
  assumes "holds b row col m" and "m \<noteq> MarkEmpty"
  shows "Set b row col mark = Inr (b, Some ErrCellOccupied)
    \<and> (\<forall>r c mk b' e. Set b r c mk = Inr (b', e) \<longrightarrow> holds b' row col m)
    \<and> (\<forall>ops b'. setMany b ops = Inr b' \<longrightarrow> holds b' row col m)"
  using Set_occupied [OF assms] Set_keeps_mark [OF assms] setMany_keeps_mark [OF assms]
  by blast

theorem occupied_cell_is_final_witness:
  "holds exampleBoard 0 1 MarkX \<and> MarkX \<noteq> MarkEmpty
 \<and> Set exampleBoard 0 1 MarkEmpty = Inr (exampleBoard, Some ErrCellOccupied)
 \<and> Set exampleBoard 0 1 MarkO = Inr (exampleBoard, Some ErrCellOccupied)
 \<and> holds (exampleBoard\<lparr>Cells := [MarkX, MarkX, MarkO, MarkO, MarkO, MarkEmpty,
                                     MarkEmpty, MarkEmpty, MarkEmpty]\<rparr>) 0 1 MarkX"
proof -
  have h: "holds exampleBoard 0 1 MarkX"
    by (simp add: holds_def Get_def exampleBoard_def isValidPosition_def cellIndex_def
        add64_def mul64_def wrap64_def inRange_def)
  have s: "setMany exampleBoard [(0, 1, MarkO), (0, 2, MarkO)] =
      Inr (exampleBoard\<lparr>Cells := [MarkX, MarkX, MarkO, MarkO, MarkO, MarkEmpty,
                                     MarkEmpty, MarkEmpty, MarkEmpty]\<rparr>)"
    by (simp add: Set_def Let_def exampleBoard_def isValidPosition_def cellIndex_def
        add64_def mul64_def wrap64_def inRange_def)
  have n: "MarkX \<noteq> MarkEmpty" by simp
  from occupied_cell_is_final [OF h n, of MarkEmpty] occupied_cell_is_final [OF h n, of MarkO] h s
  show ?thesis by blast
qed

section \<open>Joining and moving\<close>

lemma getPlayerMark_Empty:
  "getPlayerMark g p = MarkEmpty \<longleftrightarrow> p \<noteq> PlayerX g \<and> p \<noteq> PlayerO g"
  by (simp add: getPlayerMark_def)

lemma Set_error_kinds:
  "Set b row col mk = Inr (b', Some e) \<Longrightarrow> b' = b \<and> (e = ErrInvalidPosition \<or> e = ErrCellOccupied)"
  by (auto simp add: Set_def Let_def split: if_splits)

lemma Join_error_unchanged: "Join g p now = (g', Some e) \<Longrightarrow> g' = g"
  by (auto simp add: Join_def split: if_splits)

lemma MakeMove_error_unchanged:
  assumes "MakeMove g p row col now = Some (Inr (g', Some e))"
  shows "g' = g"
proof (cases "Status g = StatusInProgress \<and> getPlayerMark g p \<noteq> MarkEmpty \<and> Turn g = getPlayerMark g p")
  case False
  with assms show ?thesis
    by (auto simp add: MakeMove_def Let_def split: if_splits)
next
  case True
  show ?thesis
  proof (cases "Set (Board g) row col (getPlayerMark g p)")
    case (Inl pn)
    with True assms show ?thesis by (simp add: MakeMove_def)
  next
    case (Inr r)
    obtain b' err where r: "r = (b', err)" by (cases r)
    show ?thesis
    proof (cases err)
      case None
      with True Inr r assms show ?thesis
        by (auto simp add: MakeMove_def Let_def run_bind_Some split: if_splits)
    next
      case (Some e')
      with Inr r have "b' = Board g" by (simp add: Set_error_unchanged)
      with True Inr r Some assms show ?thesis by (simp add: MakeMove_def)
    qed
  qed
qed

text \<open>
  Claim C5. A \<open>Join\<close>, a \<open>MakeMove\<close> or a \<open>Set\<close> that returns an error leaves the whole
  state (players, status, turn, every cell, the timestamps) exactly as it was before the
  call.
\<close>

theorem error_leaves_state_unchanged:
  "(Join g playerID now = (g', Some e) \<longrightarrow> g' = g)
 \<and> (MakeMove g playerID row col now = Some (Inr (g', Some e)) \<longrightarrow> g' = g)
 \<and> (Set b row col mark = Inr (b', Some e) \<longrightarrow> b' = b)"
  using Join_error_unchanged [of g playerID now g' e]
    MakeMove_error_unchanged [of g playerID row col now g' e]
    Set_error_unchanged [of b row col mark b' e]
  by blast

theorem error_leaves_state_unchanged_witness:
  "snd (Join exampleGame ''carol'' 9) = Some ErrGameAlreadyStarted
 \<and> fst (Join exampleGame ''carol'' 9) = exampleGame
 \<and> MakeMove exampleGame ''alice'' 0 1 9 = Some (Inr (exampleGame, Some ErrCellOccupied))
 \<and> Set exampleBoard 3 0 MarkX = Inr (exampleBoard, Some ErrInvalidPosition)"
proof -
  have j: "Join exampleGame ''carol'' 9 = (fst (Join exampleGame ''carol'' 9), Some ErrGameAlreadyStarted)"
    by (simp add: Join_def exampleGame_def)
  obtain g' where m: "MakeMove exampleGame ''alice'' 0 1 9 = Some (Inr (g', Some ErrCellOccupied))"
    by (simp add: MakeMove_def Set_def Let_def getPlayerMark_def exampleGame_def exampleBoard_def
        isValidPosition_def cellIndex_def add64_def mul64_def wrap64_def inRange_def)
  obtain b' where s: "Set exampleBoard 3 0 MarkX = Inr (b', Some ErrInvalidPosition)"
    by (simp add: Set_def exampleBoard_def isValidPosition_def)
  from error_leaves_state_unchanged [where g = exampleGame and playerID = "''carol''" and now = 9
      and g' = "fst (Join exampleGame ''carol'' 9)" and e = ErrGameAlreadyStarted] j
  have 1: "fst (Join exampleGame ''carol'' 9) = exampleGame" by blast
  from error_leaves_state_unchanged [where g = exampleGame and playerID = "''alice''" and row = 0
      and col = 1 and now = 9 and g' = g' and e = ErrCellOccupied] m
  have 2: "g' = exampleGame" by blast
  from error_leaves_state_unchanged [where b = exampleBoard and row = 3 and col = 0
      and mark = MarkX and b' = b' and e = ErrInvalidPosition] s
  have 3: "b' = exampleBoard" by blast
  from j 1 2 3 m s show ?thesis by simp
qed

text \<open>
  Claim C4. \<open>MakeMove\<close> fails with \<open>ErrGameNotInProgress\<close> whenever the status is not
  InProgress; then with \<open>ErrPlayerNotInGame\<close> when the player id is neither \<open>PlayerX\<close>
  nor \<open>PlayerO\<close>; then with \<open>ErrNotYourTurn\<close> when the mark of the player differs from the
  turn; and otherwise it returns the error of \<open>Set\<close> (\<open>ErrInvalidPosition\<close> or
  \<open>ErrCellOccupied\<close>) as it is. \<open>Join\<close> fails with \<open>ErrGameAlreadyStarted\<close> whenever the
  status is not Pending, then with \<open>ErrCannotJoinOwnGame\<close> when the player id is \<open>PlayerX\<close>.
\<close>

theorem errors_in_order:
  "(Status g \<noteq> StatusInProgress \<longrightarrow>
      MakeMove g playerID row col now = Some (Inr (g, Some ErrGameNotInProgress)))
 \<and> (Status g = StatusInProgress \<and> playerID \<noteq> PlayerX g \<and> playerID \<noteq> PlayerO g \<longrightarrow>
      MakeMove g playerID row col now = Some (Inr (g, Some ErrPlayerNotInGame)))
 \<and> (Status g = StatusInProgress \<and> getPlayerMark g playerID \<noteq> MarkEmpty
      \<and> getPlayerMark g playerID \<noteq> Turn g \<longrightarrow>
      MakeMove g playerID row col now = Some (Inr (g, Some ErrNotYourTurn)))
 \<and> (Status g = StatusInProgress \<and> getPlayerMark g playerID \<noteq> MarkEmpty
      \<and> getPlayerMark g playerID = Turn g
      \<and> Set (Board g) row col (getPlayerMark g playerID) = Inr (b', Some e) \<longrightarrow>
      MakeMove g playerID row col now = Some (Inr (g, Some e))
      \<and> (e = ErrInvalidPosition \<or> e = ErrCellOccupied))
 \<and> (Status g \<noteq> StatusPending \<longrightarrow> Join g playerID now = (g, Some ErrGameAlreadyStarted))
 \<and> (Status g = StatusPending \<and> playerID = PlayerX g \<longrightarrow>
      Join g playerID now = (g, Some ErrCannotJoinOwnGame))"
  by (auto simp add: MakeMove_def Join_def Let_def getPlayerMark_Empty dest: Set_error_kinds)

theorem errors_in_order_witness:
  "MakeMove pendingGame ''alice'' 7 7 1 = Some (Inr (pendingGame, Some ErrGameNotInProgress))
 \<and> MakeMove exampleGame ''carol'' 7 7 1 = Some (Inr (exampleGame, Some ErrPlayerNotInGame))
 \<and> MakeMove exampleGame ''bob'' 7 7 1 = Some (Inr (exampleGame, Some ErrNotYourTurn))
 \<and> MakeMove exampleGame ''alice'' 7 7 1 = Some (Inr (exampleGame, Some ErrInvalidPosition))
 \<and> Join exampleGame ''alice'' 1 = (exampleGame, Some ErrGameAlreadyStarted)
 \<and> Join pendingGame ''alice'' 1 = (pendingGame, Some ErrCannotJoinOwnGame)"
proof -
  have s: "Set (Board exampleGame) 7 7 (getPlayerMark exampleGame ''alice'') =
      Inr (exampleBoard, Some ErrInvalidPosition)"
    by (simp add: Set_def exampleGame_def exampleBoard_def isValidPosition_def)
  have a: "getPlayerMark exampleGame ''alice'' = MarkX" "getPlayerMark exampleGame ''bob'' = MarkO"
    by (simp_all add: getPlayerMark_def exampleGame_def)
  have f: "Status pendingGame = StatusPending" "Status exampleGame = StatusInProgress"
    "PlayerX pendingGame = ''alice''" "PlayerX exampleGame = ''alice''"
    "PlayerO exampleGame = ''bob''" "Turn exampleGame = MarkX"
    by (simp_all add: pendingGame_def exampleGame_def)
  from errors_in_order [where g = pendingGame and playerID = "''alice''" and row = 7 and col = 7 and now = 1]
    errors_in_order [where g = exampleGame and playerID = "''carol''" and row = 7 and col = 7 and now = 1]
    errors_in_order [where g = exampleGame and playerID = "''bob''" and row = 7 and col = 7 and now = 1]
    errors_in_order [where g = exampleGame and playerID = "''alice''" and row = 7 and col = 7 and now = 1
      and b' = exampleBoard and e = ErrInvalidPosition]
    s a f
  show ?thesis by simp
qed



section \<open>The status of a game\<close>

lemma Join_step: "Join g p now = (g', e) \<Longrightarrow> statusStep (Status g) (OpJoin p now) e (Status g')"
  by (auto simp add: Join_def statusStep_def split: if_splits)

lemma MakeMove_step:
  assumes "MakeMove g p row col now = Some (Inr (g', e))"
  shows "statusStep (Status g) (OpMakeMove p row col now) e (Status g')"
proof (cases "Status g = StatusInProgress")
  case False
  with assms show ?thesis by (simp add: MakeMove_def statusStep_def)
next
  case True
  with assms show ?thesis
    by (auto simp add: MakeMove_def Let_def run_bind_Some statusStep_def IsFinished_def
        split: if_splits sum.splits option.splits)
qed

lemma applyOp_step: "applyOp g op = Some (Inr (g', e)) \<Longrightarrow> statusStep (Status g) op e (Status g')"
  by (cases op) (auto dest: Join_step MakeMove_step)

lemma statusStep_rank: "statusStep s op e s' \<Longrightarrow> statusRank s \<le> statusRank s'"
  by (cases s; cases s') (auto simp add: statusStep_def IsFinished_def)

lemma statusStep_final: "statusStep s op e s' \<Longrightarrow> IsFinished s \<Longrightarrow> s' = s"
  by (auto simp add: statusStep_def IsFinished_def)

lemma runOps_Cons:
  "runOps g (op # ops) = Some (Inr (g', es)) \<longleftrightarrow>
     (\<exists>g1 e es'. applyOp g op = Some (Inr (g1, e)) \<and> runOps g1 ops = Some (Inr (g', es')) \<and> es = e # es')"
  by (auto simp add: run_bind_Some)

lemma runOps_status:
  "runOps g ops = Some (Inr (g', es)) \<Longrightarrow>
     statusRank (Status g) \<le> statusRank (Status g')
   \<and> (IsFinished (Status g) \<longrightarrow> Status g' = Status g)
   \<and> successfulJoins ops es \<le> (if Status g = StatusPending then 1 else 0)"
proof (induction ops arbitrary: g es)
  case Nil
  then show ?case by (simp add: successfulJoins_def)
next
  case (Cons op ops)
  from Cons.prems obtain g1 e es' where a: "applyOp g op = Some (Inr (g1, e))"
    and r: "runOps g1 ops = Some (Inr (g', es'))" and es: "es = e # es'"
    unfolding runOps_Cons by blast
  note st = applyOp_step [OF a]
  note ih = Cons.IH [OF r]
  have 1: "statusRank (Status g) \<le> statusRank (Status g')"
    using statusStep_rank [OF st] ih by simp
  have 2: "IsFinished (Status g) \<longrightarrow> Status g' = Status g"
    using statusStep_final [OF st] ih by auto
  have 3: "successfulJoins (op # ops) es \<le> (if Status g = StatusPending then 1 else 0)"
    using st ih by (auto simp add: es successfulJoins_def statusStep_def IsFinished_def split: if_splits)
  from 1 2 3 show ?case by blast
qed

text \<open>
  Claim C3. Every \<open>Join\<close> or \<open>MakeMove\<close> call, from any state, either leaves the status as
  it is, or is a successful \<open>Join\<close> taking Pending to InProgress, or is a successful
  \<open>MakeMove\<close> taking InProgress to XWon, OWon or Draw: a final status never changes and no
  call moves the status backward. Over any sequence of calls the status only advances, a
  final status stays, and at most one \<open>Join\<close> succeeds.
\<close>

theorem status_only_advances:
  "(applyOp g op = Some (Inr (g1, e)) \<longrightarrow>
      statusStep (Status g) op e (Status g1)
      \<and> (IsFinished (Status g) \<longrightarrow> Status g1 = Status g)
      \<and> statusRank (Status g) \<le> statusRank (Status g1))
 \<and> (runOps g ops = Some (Inr (g', es)) \<longrightarrow>
      statusRank (Status g) \<le> statusRank (Status g')
      \<and> (IsFinished (Status g) \<longrightarrow> Status g' = Status g)
      \<and> successfulJoins ops es \<le> 1)"
proof -
  have "successfulJoins ops es \<le> 1" if "runOps g ops = Some (Inr (g', es))"
    using runOps_status [OF that] by (simp split: if_splits)
  then show ?thesis
    using applyOp_step [of g op g1 e] statusStep_rank [of "Status g" op e "Status g1"]
      statusStep_final [of "Status g" op e "Status g1"] runOps_status [of g ops g' es]
    by blast
qed

theorem status_only_advances_witness:
  "applyOp pendingGame (OpJoin ''bob'' 1) =
     Some (Inr (pendingGame\<lparr>PlayerO := ''bob'', Status := StatusInProgress, UpdatedAt := 1\<rparr>, None))
 \<and> statusStep StatusPending (OpJoin ''bob'' 1) None StatusInProgress
 \<and> runOps pendingGame [OpJoin ''bob'' 1, OpJoin ''carol'' 2, OpMakeMove ''alice'' 0 0 3] =
     Some (Inr (pendingGame\<lparr>PlayerO := ''bob'', Status := StatusInProgress, UpdatedAt := 3,
                  Board := emptyBoard\<lparr>Cells := MarkX # replicate 8 MarkEmpty\<rparr>, Turn := MarkO\<rparr>,
                [None, Some ErrGameAlreadyStarted, None]))
 \<and> successfulJoins [OpJoin ''bob'' 1, OpJoin ''carol'' 2, OpMakeMove ''alice'' 0 0 3]
      [None, Some ErrGameAlreadyStarted, None] \<le> 1"
proof -
  let ?g1 = "pendingGame\<lparr>PlayerO := ''bob'', Status := StatusInProgress, UpdatedAt := 1\<rparr>"
  let ?g3 = "pendingGame\<lparr>PlayerO := ''bob'', Status := StatusInProgress, UpdatedAt := 3,
                  Board := emptyBoard\<lparr>Cells := MarkX # replicate 8 MarkEmpty\<rparr>, Turn := MarkO\<rparr>"
  let ?ops = "[OpJoin ''bob'' 1, OpJoin ''carol'' 2, OpMakeMove ''alice'' 0 0 3]"
  have a: "applyOp pendingGame (OpJoin ''bob'' 1) = Some (Inr (?g1, None))"
    by code_simp
  have r: "runOps pendingGame ?ops = Some (Inr (?g3, [None, Some ErrGameAlreadyStarted, None]))"
    by code_simp
  have s: "Status pendingGame = StatusPending" "Status ?g1 = StatusInProgress"
    by (simp_all add: pendingGame_def)
  from status_only_advances [where g = pendingGame and op = "OpJoin ''bob'' 1" and ?g1.0 = ?g1
      and e = None and ops = ?ops and g' = ?g3 and es = "[None, Some ErrGameAlreadyStarted, None]"]
    a r s
  show ?thesis by simp
qed

section \<open>Finding a winning line\<close>















lemma NewBoard_wellFormed:
  assumes "NewBoard avail bsize winLength = Inr (Inr b)" "bsize * bsize < 2 ^ 63"
  shows "wellFormed b"
proof -
  from assms(1) have w: "0 \<le> bsize"
    by (auto simp add: NewBoard_def split: if_splits)
  have "0 \<le> bsize * bsize" by simp
  then have "- (2 ^ 63) \<le> bsize * bsize" by (rule order_trans [rotated]) simp
  then have "int64 (bsize * bsize)" using assms(2) by (simp add: int64_def)
  then have m: "mul64 bsize bsize = bsize * bsize" by (simp add: mul64_def wrap64_id)
  from assms(1) have "b = \<lparr>Size = bsize, WinLength = winLength,
      Cells = replicate (nat (bsize * bsize)) MarkEmpty\<rparr>"
    by (auto simp add: NewBoard_def makeSlice_def m clear_from_replicate split: if_splits)
  with w assms(2) show ?thesis by (simp add: wellFormed_def)
qed

lemma Set_wellFormed: "wellFormed b \<Longrightarrow> Set b row col mark = Inr (b', e) \<Longrightarrow> wellFormed b'"
  by (auto simp add: Set_def Let_def wellFormed_def split: if_splits)



section \<open>Listing the pending games\<close>

lemma collectGames_eq:
  "collectGames gs pending =
     pending @ map GetSnapshot (filter (\<lambda>g. Status g = StatusPending) (map snd gs))"
  by (induction gs arbitrary: pending) (simp_all add: GetStatus_def)

lemma collectShards_eq:
  "collectShards shs pending =
     pending @ map GetSnapshot (filter (\<lambda>g. Status g = StatusPending)
        (concat (map (\<lambda>shard. map snd (games shard)) shs)))"
  by (induction shs arbitrary: pending) (simp_all add: collectGames_eq)

lemma collected: "collectShards (shards s) [] = pendingSnapshots s"
  by (simp add: collectShards_eq pendingSnapshots_def allGames_def)

lemma ListPending_eq:
  assumes "0 \<le> offset"
  shows "ListPending s limit offset =
     Inr (page limit offset (pendingSnapshots s), int (length (pendingSnapshots s)))"
proof (cases "offset \<ge> int (length (pendingSnapshots s))")
  case True
  then show ?thesis using assms
    by (simp add: ListPending_def collected page_def)
next
  case False
  then show ?thesis using assms
    by (auto simp add: ListPending_def collected page_def sliceFrom_def sliceTo_def Let_def)
qed

lemma ListPending_negative:
  assumes "offset < 0"
  shows "ListPending s limit offset = Inl SliceBoundsOutOfRange"
  using assms by (simp add: ListPending_def sliceFrom_def Let_def)

lemma pendingSnapshots_exampleStore:
  "pendingSnapshots exampleStore =
     [GetSnapshot (pendingGame\<lparr>ID := ''a''\<rparr>), GetSnapshot (pendingGame\<lparr>ID := ''c''\<rparr>),
      GetSnapshot (pendingGame\<lparr>ID := ''d''\<rparr>), GetSnapshot (pendingGame\<lparr>ID := ''e''\<rparr>)]"
  by (simp add: pendingSnapshots_def allGames_def exampleStore_def pendingGame_def exampleGame_def)

text \<open>
  Claim C8, as amended. For every store, every limit and every offset that is not negative,
  \<open>ListPending\<close> returns the snapshots of exactly the games whose status is Pending, with
  the offset applied and then the limit applied when the limit is positive (a limit that is
  not positive leaves the rest of the list whole), together with the number of all pending
  games; for an offset at or beyond that number the page is empty and the number is the
  same.
\<close>

theorem ListPending_page:
  assumes "0 \<le> offset"
  shows "ListPending s limit offset =
      Inr (page limit offset (pendingSnapshots s), int (length (pendingSnapshots s)))
    \<and> (int (length (pendingSnapshots s)) \<le> offset \<longrightarrow>
         ListPending s limit offset = Inr ([], int (length (pendingSnapshots s))))"
  using ListPending_eq [OF assms, of s limit] by (auto simp add: page_def)

theorem ListPending_page_witness:
  "(0::int) \<le> 3
 \<and> ListPending exampleStore 2 3 = Inr ([GetSnapshot (pendingGame\<lparr>ID := ''e''\<rparr>)], 4)
 \<and> ListPending exampleStore 2 4 = Inr ([], 4)
 \<and> ListPending exampleStore 2 0 =
      Inr ([GetSnapshot (pendingGame\<lparr>ID := ''a''\<rparr>), GetSnapshot (pendingGame\<lparr>ID := ''c''\<rparr>)], 4)"
  using ListPending_page [of 3 exampleStore 2] ListPending_page [of 4 exampleStore 2]
    ListPending_page [of 0 exampleStore 2]
  by (simp add: pendingSnapshots_exampleStore page_def)

text \<open>
  Claim C8 as stated fails for a limit that is not positive: the guard \<open>limit > 0\<close> skips
  the cut, so with limit 0 the page is not the first 0 entries but all four snapshots.
\<close>

theorem ListPending_limit_counterexample:
  "ListPending exampleStore 0 0 =
     Inr ([GetSnapshot (pendingGame\<lparr>ID := ''a''\<rparr>), GetSnapshot (pendingGame\<lparr>ID := ''c''\<rparr>),
           GetSnapshot (pendingGame\<lparr>ID := ''d''\<rparr>), GetSnapshot (pendingGame\<lparr>ID := ''e''\<rparr>)], 4)
 \<and> ListPending exampleStore 0 0 \<noteq>
     Inr (take (nat 0) (drop (nat 0) (pendingSnapshots exampleStore)),
          int (length (pendingSnapshots exampleStore)))"
  by (simp add: ListPending_eq pendingSnapshots_exampleStore page_def)

text \<open>
  Claim C10. \<open>ListPending\<close> returns only for an offset that is not negative: a negative
  offset passes the one guard \<open>offset >= len(pending)\<close>, the slice expression
  \<open>pending[offset:]\<close> is evaluated with it and the call panics; for every other offset the
  call returns a page and a total.
\<close>

theorem ListPending_offset_domain:
  "(offset < 0 \<longrightarrow> ListPending s limit offset = Inl SliceBoundsOutOfRange)
 \<and> (0 \<le> offset \<longrightarrow> (\<exists>pg total. ListPending s limit offset = Inr (pg, total)))"
  using ListPending_negative [of offset s limit] ListPending_eq [of offset s limit] by blast

theorem ListPending_offset_domain_witness:
  "(- 1::int) < 0 \<and> ListPending exampleStore 2 (- 1) = Inl SliceBoundsOutOfRange
 \<and> (0::int) \<le> 0 \<and> (\<exists>pg total. ListPending exampleStore 2 0 = Inr (pg, total))"
  using ListPending_offset_domain [of "- 1" exampleStore 2] ListPending_offset_domain [of 0 exampleStore 2]
  by simp

section \<open>Recording results\<close>


lemma getShard_putStats [simp]: "getShard runes (putStats s i u st) v = getShard runes s v"
  by (simp add: getShard_def putStats_def Let_def)

lemma storeOK_putStats [simp]: "storeOK (putStats s i u st) = storeOK s"
  by (simp add: storeOK_def putStats_def)









lemma NewStatsStore_ok:
  assumes "n < 2 ^ 32" "NewStatsStore avail n = Inr s"
  shows "storeOK s"
proof -
  define k where "k = (if n < 1 then 64 else n)"
  have k: "0 < k" "k < 2 ^ 32" using assms(1) by (auto simp add: k_def)
  have "(word_of_int k :: 32 word) = word_of_nat (nat k)" using k by simp
  moreover have "nat k < 2 ^ 32" using k by (simp add: nat_less_iff)
  ultimately have "unat (word_of_int k :: 32 word) = nat k"
    by (simp only: unat_of_nat) simp
  then have "(word_of_int k :: 32 word) \<noteq> 0" using k by (metis nat_0_iff not_less unat_0 order_less_imp_le)
  with assms(2) k show ?thesis
    by (auto simp add: NewStatsStore_def makeSlice_def storeOK_def Let_def k_def split: if_splits)
qed




end
